theory Spec2Isabelle
  imports Main
begin

section \<open>The translation unit seen by the binding generator\<close>

text \<open>
  The repository consists of two header files, \<^verbatim>\<open>types_workaround.h\<close> (the type shim)
  and \<^verbatim>\<open>wrapper.h\<close> (the inclusion-order wrapper). Neither has run-time behaviour:
  what they do is transform the state of the translation unit that the C preprocessor
  and parser build up, namely the set of defined macros and the typedef declarations
  seen so far. The headers are modelled as functions on that state, one combinator per
  directive, so that each definition below reads line by line like the header it embeds.
\<close>

subsection \<open>C types named in the headers\<close>

text \<open>
  The integer types the shim spells out (\<^verbatim>\<open>unsigned long\<close>, \<^verbatim>\<open>long\<close>,
  \<^verbatim>\<open>unsigned int\<close>, \<^verbatim>\<open>int\<close>), and the two \<^verbatim>\<open>long long\<close> types a host
  header may use for the same names.
\<close>

datatype ctype =
    UnsignedInt | SignedInt
  | UnsignedLong | SignedLong
  | UnsignedLongLong | SignedLongLong

fun is_unsigned :: "ctype \<Rightarrow> bool" where
  "is_unsigned UnsignedInt = True"
| "is_unsigned UnsignedLong = True"
| "is_unsigned UnsignedLongLong = True"
| "is_unsigned SignedInt = False"
| "is_unsigned SignedLong = False"
| "is_unsigned SignedLongLong = False"

text \<open>
  Width in bits of a type under the target's data model. The compiler predefines
  \<^verbatim>\<open>__LP64__\<close> exactly on LP64 targets, where \<^verbatim>\<open>long\<close> has 64 bits; on the other
  targets in use (ILP32, and LLP64 on 64-bit Windows) \<^verbatim>\<open>long\<close> has 32 bits.
  \<^verbatim>\<open>int\<close> has 32 bits and \<^verbatim>\<open>long long\<close> 64 bits on all of them.
\<close>

fun bits :: "bool \<Rightarrow> ctype \<Rightarrow> nat" where
  "bits lp64 UnsignedInt = 32"
| "bits lp64 SignedInt = 32"
| "bits lp64 UnsignedLong = (if lp64 then 64 else 32)"
| "bits lp64 SignedLong = (if lp64 then 64 else 32)"
| "bits lp64 UnsignedLongLong = 64"
| "bits lp64 SignedLongLong = 64"

subsection \<open>State of the translation unit\<close>

datatype diag =
    FileNotFound string   \<comment> \<open>an \<^verbatim>\<open>#include\<close> whose file the host does not have\<close>
  | Redefinition string   \<comment> \<open>a name defined again in a conflicting way\<close>

record tu_state =
  macros :: "string set"                \<comment> \<open>macros defined so far\<close>
  typedefs :: "(string \<times> ctype) list"    \<comment> \<open>typedef declarations, in order\<close>
  tags :: "string list"                 \<comment> \<open>struct definitions, in order\<close>
  diags :: "diag list"                  \<comment> \<open>errors reported so far\<close>

definition fresh_tu :: tu_state where
  "fresh_tu = \<lparr>macros = {}, typedefs = [], tags = [], diags = []\<rparr>"

text \<open>A header is what processing its text does to the translation unit.\<close>

type_synonym header = "tu_state \<Rightarrow> tu_state"

definition seq :: "('s \<Rightarrow> 's) list \<Rightarrow> 's \<Rightarrow> 's" where
  "seq ls s = fold (\<lambda>l. l) ls s"

definition define_macro :: "string \<Rightarrow> header" where
  "define_macro m s = s\<lparr>macros := insert m (macros s)\<rparr>"

definition ifndef :: "string \<Rightarrow> header \<Rightarrow> header" where
  "ifndef m body s = (if m \<in> macros s then s else body s)"

definition ifdef_else :: "string \<Rightarrow> header \<Rightarrow> header \<Rightarrow> header" where
  "ifdef_else m yes no s = (if m \<in> macros s then yes s else no s)"

definition add_diag :: "diag \<Rightarrow> header" where
  "add_diag d s = s\<lparr>diags := diags s @ [d]\<rparr>"

text \<open>
  \<^verbatim>\<open>typedef T name;\<close> A typedef may be repeated with the same type (C11 6.7p3,
  C++ [dcl.typedef]; the generator's front end accepts it in every mode); repeating it
  with a different type is the error ``typedef redefinition with different types''.
  The declaration is recorded in both cases.
\<close>

definition conflicting :: "string \<Rightarrow> ctype \<Rightarrow> tu_state \<Rightarrow> bool" where
  "conflicting name T s = list_ex (\<lambda>d. fst d = name \<and> snd d \<noteq> T) (typedefs s)"

definition typedef_decl :: "ctype \<Rightarrow> string \<Rightarrow> header" where
  "typedef_decl T name s =
     (let s' = s\<lparr>typedefs := typedefs s @ [(name, T)]\<rparr>
      in if conflicting name T s then add_diag (Redefinition name) s' else s')"

text \<open>
  \<^verbatim>\<open>struct name { ... };\<close> Unlike a typedef, a struct definition may not be repeated.
  The two headers of the repository contain none; host and vendor headers do.
\<close>

definition struct_def :: "string \<Rightarrow> header" where
  "struct_def name s =
     (let s' = s\<lparr>tags := tags s @ [name]\<rparr>
      in if name \<in> set (tags s) then add_diag (Redefinition name) s' else s')"

definition def_count :: "string \<Rightarrow> tu_state \<Rightarrow> nat" where
  "def_count name s = length (filter (\<lambda>d. fst d = name) (typedefs s))"

definition type_defined :: "string \<Rightarrow> tu_state \<Rightarrow> bool" where
  "type_defined name s = (0 < def_count name s)"

text \<open>The errors a header adds to those reported before it.\<close>

definition new_diags :: "header \<Rightarrow> tu_state \<Rightarrow> diag list" where
  "new_diags h s = drop (length (diags s)) (diags (h s))"

subsection \<open>Inclusion\<close>

text \<open>
  The host environment decides what an \<^verbatim>\<open>#include\<close> finds: the header of that name,
  or nothing. A file being processed is followed together with the list of the
  inclusions it has performed itself, in order.
\<close>

type_synonym host = "string \<Rightarrow> header option"

datatype inc_kind = Angle | Quote

record run =
  tu :: tu_state
  included :: "(inc_kind \<times> string) list"

definition start :: "tu_state \<Rightarrow> run" where
  "start s = \<lparr>tu = s, included = []\<rparr>"

text \<open>
  A file that is not found is a fatal error: it is reported, and processing stops at
  that line. Nothing after it is processed, neither the rest of the including file nor
  any later inclusion. Processing a file therefore either finishes or stops, in both
  cases with the state reached.
\<close>

datatype outcome = Stopped run | Finished run

fun run_of :: "outcome \<Rightarrow> run" where
  "run_of (Stopped r) = r"
| "run_of (Finished r) = r"

definition include_file :: "host \<Rightarrow> inc_kind \<Rightarrow> string \<Rightarrow> run \<Rightarrow> outcome" where
  "include_file H k name r =
     (case H name of
        None \<Rightarrow> Stopped \<lparr>tu = add_diag (FileNotFound name) (tu r),
                         included = included r @ [(k, name)]\<rparr>
      | Some h \<Rightarrow> Finished \<lparr>tu = h (tu r), included = included r @ [(k, name)]\<rparr>)"

text \<open>The lines of a file one after the other, up to the first that stops.\<close>

fun steps :: "(run \<Rightarrow> outcome) list \<Rightarrow> run \<Rightarrow> outcome" where
  "steps [] r = Finished r"
| "steps (l # ls) r =
     (case l r of Stopped r' \<Rightarrow> Stopped r' | Finished r' \<Rightarrow> steps ls r')"

section \<open>The two headers\<close>

subsection \<open>\<^verbatim>\<open>types_workaround.h\<close>\<close>

text \<open>
  \<^verbatim>\<open>
  #ifndef TYPES_WORKAROUND_H
  #define TYPES_WORKAROUND_H
  #ifndef _SIZE_T_DEFINED
  #define _SIZE_T_DEFINED
  #ifdef __LP64__
  typedef unsigned long size_t;
  typedef long ssize_t;
  #else
  typedef unsigned int size_t;
  typedef int ssize_t;
  #endif
  #endif
  #ifndef _STDINT_H
  typedef unsigned int uint32_t;
  typedef int int32_t;
  #endif
  #endif
  \<close>
\<close>

definition types_workaround_h :: header where
  "types_workaround_h =
     ifndef ''TYPES_WORKAROUND_H'' (seq [
       define_macro ''TYPES_WORKAROUND_H'',
       ifndef ''_SIZE_T_DEFINED'' (seq [
         define_macro ''_SIZE_T_DEFINED'',
         ifdef_else ''__LP64__''
           (seq [typedef_decl UnsignedLong ''size_t'',
                 typedef_decl SignedLong ''ssize_t''])
           (seq [typedef_decl UnsignedInt ''size_t'',
                 typedef_decl SignedInt ''ssize_t''])]),
       ifndef ''_STDINT_H'' (seq [
         typedef_decl UnsignedInt ''uint32_t'',
         typedef_decl SignedInt ''int32_t''])])"

subsection \<open>\<^verbatim>\<open>wrapper.h\<close>\<close>

text \<open>
  \<^verbatim>\<open>
  #include <stddef.h>
  #include <stdbool.h>
  #include <stdint.h>
  #include <sys/types.h>
  #include "BinderBindings.hpp"
  \<close>
  The file has two parts, each under its own comment: first the basic C type
  definitions, then the Android Binder header.
\<close>

definition wrapper_h_basic_types :: "host \<Rightarrow> run \<Rightarrow> outcome" where
  "wrapper_h_basic_types H =
     steps [include_file H Angle ''stddef.h'',
            include_file H Angle ''stdbool.h'',
            include_file H Angle ''stdint.h'',
            include_file H Angle ''sys/types.h'']"

definition wrapper_h :: "host \<Rightarrow> run \<Rightarrow> outcome" where
  "wrapper_h H =
     steps [wrapper_h_basic_types H,
            include_file H Quote ''BinderBindings.hpp'']"


section \<open>Vocabulary of the properties\<close>

text \<open>The typedef declarations a header adds to those made before it.\<close>

definition new_typedefs :: "header \<Rightarrow> tu_state \<Rightarrow> (string \<times> ctype) list" where
  "new_typedefs h s = drop (length (typedefs s)) (typedefs (h s))"

text \<open>
  The two guard macros the shim tests agree with the declarations made so far: a guard
  that is defined stands for exactly one earlier definition of each of its two names,
  a guard that is not defined for none.
\<close>

definition guards_agree :: "tu_state \<Rightarrow> bool" where
  "guards_agree s =
     (def_count ''size_t'' s = (if ''_SIZE_T_DEFINED'' \<in> macros s then 1 else 0) \<and>
      def_count ''ssize_t'' s = (if ''_SIZE_T_DEFINED'' \<in> macros s then 1 else 0) \<and>
      def_count ''uint32_t'' s = (if ''_STDINT_H'' \<in> macros s then 1 else 0) \<and>
      def_count ''int32_t'' s = (if ''_STDINT_H'' \<in> macros s then 1 else 0))"

text \<open>
  The weaker reading: no name is defined behind the back of its guard. A name without
  a definition may still have its guard defined.
\<close>

definition guards_cover :: "tu_state \<Rightarrow> bool" where
  "guards_cover s =
     ((''_SIZE_T_DEFINED'' \<notin> macros s \<longrightarrow>
         \<not> type_defined ''size_t'' s \<and> \<not> type_defined ''ssize_t'' s) \<and>
      (''_STDINT_H'' \<notin> macros s \<longrightarrow>
         \<not> type_defined ''uint32_t'' s \<and> \<not> type_defined ''int32_t'' s))"

text \<open>
  A header that never undefines a macro, and a header protected by an include guard:
  some macro that is defined once the header has been processed, and whose being
  defined makes processing the header change nothing.
\<close>

definition keeps_macros :: "header \<Rightarrow> bool" where
  "keeps_macros h = (\<forall>s. macros s \<subseteq> macros (h s))"

definition self_guarded :: "header \<Rightarrow> bool" where
  "self_guarded h =
     (\<exists>g. (\<forall>s. g \<in> macros s \<longrightarrow> h s = s) \<and> (\<forall>s. g \<in> macros (h s)))"

text \<open>A header that never takes a typedef declaration away.\<close>

definition keeps_typedefs :: "header \<Rightarrow> bool" where
  "keeps_typedefs h = (\<forall>name s. def_count name s \<le> def_count name (h s))"

section \<open>Example environments\<close>

text \<open>
  Concrete hosts and states on which the properties below are exercised. The usual
  include-guard idiom, \<^verbatim>\<open>#ifndef G\<close> / \<^verbatim>\<open>#define G\<close> / body / \<^verbatim>\<open>#endif\<close>:
\<close>

definition guarded :: "string \<Rightarrow> header \<Rightarrow> header" where
  "guarded g body = ifndef g (seq [define_macro g, body])"

text \<open>A host with all five headers, each under its own include guard.\<close>

definition complete_host :: host where
  "complete_host = map_of
     [(''stddef.h'', guarded ''_STDDEF_H''
         (ifndef ''_SIZE_T_DEFINED'' (seq [
            define_macro ''_SIZE_T_DEFINED'',
            typedef_decl UnsignedLong ''size_t'']))),
      (''stdbool.h'', guarded ''_STDBOOL_H'' (define_macro ''bool'')),
      (''stdint.h'', guarded ''_STDINT_H'' (seq [
            typedef_decl SignedInt ''int32_t'',
            typedef_decl UnsignedInt ''uint32_t''])),
      (''sys/types.h'', guarded ''_SYS_TYPES_H'' (typedef_decl SignedLong ''ssize_t'')),
      (''BinderBindings.hpp'', guarded ''BINDER_BINDINGS_HPP'' (struct_def ''BinderHandle''))]"

text \<open>The same host with a vendor header that has no include guard.\<close>

definition unguarded_vendor_host :: host where
  "unguarded_vendor_host =
     complete_host(''BinderBindings.hpp'' \<mapsto> struct_def ''BinderHandle'')"

text \<open>
  A host without any standard header. The shim lies next to the wrapper, as in the
  repository; the second host also has the vendor header.
\<close>

definition shim_only_host :: host where
  "shim_only_host = map_of [(''types_workaround.h'', types_workaround_h)]"

definition no_std_headers_host :: host where
  "no_std_headers_host =
     shim_only_host(''BinderBindings.hpp'' \<mapsto> struct_def ''BinderHandle'')"

text \<open>
  A host on which the four standard headers are found but are empty stubs, defining
  none of the type names; the shim and the vendor header are there as well.
\<close>

definition stub_host :: host where
  "stub_host = map_of
     [(''types_workaround.h'', types_workaround_h),
      (''stddef.h'', seq []),
      (''stdbool.h'', seq []),
      (''stdint.h'', seq []),
      (''sys/types.h'', seq []),
      (''BinderBindings.hpp'', struct_def ''BinderHandle'')]"

text \<open>
  The state left by a complete set of standard headers on an LP64 target: both guard
  macros set, all four names defined.
\<close>

definition full_headers_tu :: tu_state where
  "full_headers_tu = fresh_tu\<lparr>macros := {''_SIZE_T_DEFINED'', ''_STDINT_H''},
       typedefs := [(''size_t'', UnsignedLong), (''uint32_t'', UnsignedInt),
                    (''int32_t'', SignedInt), (''ssize_t'', SignedLong)]\<rparr>"

section \<open>Effect of the directives, field by field\<close>

lemma seq_simps:
  "seq [] s = s"
  "seq (l # ls) s = seq ls (l s)"
  by (simp_all add: seq_def)

lemma define_macro_fields:
  "macros (define_macro m s) = insert m (macros s)"
  "typedefs (define_macro m s) = typedefs s"
  "tags (define_macro m s) = tags s"
  "diags (define_macro m s) = diags s"
  by (simp_all add: define_macro_def)

lemma add_diag_fields:
  "macros (add_diag d s) = macros s"
  "typedefs (add_diag d s) = typedefs s"
  "tags (add_diag d s) = tags s"
  "diags (add_diag d s) = diags s @ [d]"
  by (simp_all add: add_diag_def)

lemma typedef_decl_fields:
  "macros (typedef_decl T n s) = macros s"
  "typedefs (typedef_decl T n s) = typedefs s @ [(n, T)]"
  "tags (typedef_decl T n s) = tags s"
  "diags (typedef_decl T n s) =
     diags s @ (if conflicting n T s then [Redefinition n] else [])"
  by (simp_all add: typedef_decl_def add_diag_def Let_def)

lemma struct_def_fields:
  "macros (struct_def n s) = macros s"
  "typedefs (struct_def n s) = typedefs s"
  "tags (struct_def n s) = tags s @ [n]"
  "diags (struct_def n s) =
     diags s @ (if n \<in> set (tags s) then [Redefinition n] else [])"
  by (simp_all add: struct_def_def add_diag_def Let_def)

lemma conflicting_define_macro:
  "conflicting n T (define_macro m s) = conflicting n T s"
  by (simp add: conflicting_def define_macro_fields)

lemma conflicting_typedef_decl:
  "conflicting n T (typedef_decl T' n' s) = (conflicting n T s \<or> (n' = n \<and> T' \<noteq> T))"
  by (simp add: conflicting_def typedef_decl_fields)

lemma def_count_define_macro: "def_count n (define_macro m s) = def_count n s"
  by (simp add: def_count_def define_macro_fields)

lemma def_count_add_diag: "def_count n (add_diag d s) = def_count n s"
  by (simp add: def_count_def add_diag_fields)

lemma def_count_typedef_decl:
  "def_count n (typedef_decl T n' s) = def_count n s + (if n' = n then 1 else 0)"
  by (simp add: def_count_def typedef_decl_fields)

lemma undefined_not_conflicting: "\<not> type_defined n s \<Longrightarrow> \<not> conflicting n T s"
  by (auto simp: type_defined_def def_count_def conflicting_def list_ex_iff filter_empty_conv)

lemma start_fields:
  "tu (start s) = s"
  "included (start s) = []"
  by (simp_all add: start_def)

lemma include_file_found:
  "H n = Some h \<Longrightarrow>
     include_file H k n r = Finished \<lparr>tu = h (tu r), included = included r @ [(k, n)]\<rparr>"
  by (simp add: include_file_def)

lemma include_file_missing:
  "H n = None \<Longrightarrow>
     include_file H k n r =
       Stopped \<lparr>tu = add_diag (FileNotFound n) (tu r), included = included r @ [(k, n)]\<rparr>"
  by (simp add: include_file_def)

lemmas shim_simps = types_workaround_h_def ifndef_def ifdef_else_def seq_simps
  define_macro_fields typedef_decl_fields conflicting_define_macro conflicting_typedef_decl

subsection \<open>Headers that keep macros, headers with an include guard\<close>

lemma keeps_macros_define_macro: "keeps_macros (define_macro m)"
  by (auto simp: keeps_macros_def define_macro_fields)

lemma keeps_macros_typedef_decl: "keeps_macros (typedef_decl T n)"
  by (simp add: keeps_macros_def typedef_decl_fields)

lemma keeps_macros_struct_def: "keeps_macros (struct_def n)"
  by (simp add: keeps_macros_def struct_def_fields)

lemma keeps_macros_seq_Nil: "keeps_macros (seq [])"
  by (simp add: keeps_macros_def seq_simps)

lemma keeps_macros_seq_Cons:
  "keeps_macros l \<Longrightarrow> keeps_macros (seq ls) \<Longrightarrow> keeps_macros (seq (l # ls))"
  unfolding keeps_macros_def seq_simps by blast

lemma keeps_macros_ifndef: "keeps_macros body \<Longrightarrow> keeps_macros (ifndef m body)"
  by (simp add: keeps_macros_def ifndef_def)

lemma keeps_macros_guarded: "keeps_macros body \<Longrightarrow> keeps_macros (guarded g body)"
  unfolding guarded_def
  by (intro keeps_macros_ifndef keeps_macros_seq_Cons keeps_macros_seq_Nil
      keeps_macros_define_macro)

lemmas keeps_macros_intros = keeps_macros_guarded keeps_macros_ifndef keeps_macros_seq_Cons
  keeps_macros_seq_Nil keeps_macros_define_macro keeps_macros_typedef_decl
  keeps_macros_struct_def

lemma guarded_self_guarded:
  assumes "keeps_macros body"
  shows "self_guarded (guarded g body)"
proof -
  have body: "\<And>m s. m \<in> macros s \<Longrightarrow> m \<in> macros (body s)"
    using assms unfolding keeps_macros_def by blast
  have "\<forall>s. g \<in> macros s \<longrightarrow> guarded g body s = s"
    by (simp add: guarded_def ifndef_def)
  moreover have "\<forall>s. g \<in> macros (guarded g body s)"
    by (simp add: guarded_def ifndef_def seq_simps body define_macro_fields)
  ultimately show ?thesis
    unfolding self_guarded_def by blast
qed

lemma keeps_typedefs_seq_Nil: "keeps_typedefs (seq [])"
  by (simp add: keeps_typedefs_def seq_simps)

lemma complete_host_guarded:
  "\<forall>n \<in> {''stddef.h'', ''stdbool.h'', ''stdint.h'', ''sys/types.h'', ''BinderBindings.hpp''}.
     \<exists>h. complete_host n = Some h \<and> self_guarded h \<and> keeps_macros h"
  by (simp add: complete_host_def guarded_self_guarded keeps_macros_intros)

section \<open>The type shim\<close>

lemma shim_skipped: "''TYPES_WORKAROUND_H'' \<in> macros s \<Longrightarrow> types_workaround_h s = s"
  by (simp add: types_workaround_h_def ifndef_def)

lemma shim_sets_own_guard: "''TYPES_WORKAROUND_H'' \<in> macros (types_workaround_h s)"
  by (simp add: shim_simps)

lemma shim_new_diags_nonempty_iff:
  "new_diags types_workaround_h s \<noteq> [] \<longleftrightarrow>
     ''TYPES_WORKAROUND_H'' \<notin> macros s \<and>
     ((''_SIZE_T_DEFINED'' \<notin> macros s \<and>
        (conflicting ''size_t''
           (if ''__LP64__'' \<in> macros s then UnsignedLong else UnsignedInt) s \<or>
         conflicting ''ssize_t''
           (if ''__LP64__'' \<in> macros s then SignedLong else SignedInt) s)) \<or>
      (''_STDINT_H'' \<notin> macros s \<and>
        (conflicting ''uint32_t'' UnsignedInt s \<or> conflicting ''int32_t'' SignedInt s)))"
  by (simp add: new_diags_def shim_simps)

lemma shim_new_diags_kind:
  "set (new_diags types_workaround_h s) \<subseteq>
     Redefinition ` {''size_t'', ''ssize_t'', ''uint32_t'', ''int32_t''}"
  by (auto simp: new_diags_def shim_simps)

lemma shim_quiet_when_covered:
  "guards_cover s \<Longrightarrow> new_diags types_workaround_h s = []"
  by (simp add: guards_cover_def new_diags_def shim_simps undefined_not_conflicting)

subsection \<open>Widths of the types the shim defines\<close>

text \<open>
  \<^bold>\<open>C4.\<close> When the shim's definitions take effect, that is when none of its three guard
  macros \<^verbatim>\<open>TYPES_WORKAROUND_H\<close>, \<^verbatim>\<open>_SIZE_T_DEFINED\<close>, \<^verbatim>\<open>_STDINT_H\<close> is defined
  beforehand, the declarations it adds are exactly these four, in this order:
  \<^verbatim>\<open>size_t\<close>, unsigned, and \<^verbatim>\<open>ssize_t\<close>, signed, both of 64 bits if \<^verbatim>\<open>__LP64__\<close>
  is defined and of 32 bits otherwise; \<^verbatim>\<open>uint32_t\<close>, unsigned, and \<^verbatim>\<open>int32_t\<close>,
  signed, both of 32 bits whether or not \<^verbatim>\<open>__LP64__\<close> is defined.
\<close>

theorem shim_widths:
  assumes "''TYPES_WORKAROUND_H'' \<notin> macros s"
    and "''_SIZE_T_DEFINED'' \<notin> macros s"
    and "''_STDINT_H'' \<notin> macros s"
  shows "map (\<lambda>(n, T). (n, is_unsigned T, bits (''__LP64__'' \<in> macros s) T))
           (new_typedefs types_workaround_h s)
    = [(''size_t'', True, if ''__LP64__'' \<in> macros s then 64 else 32),
       (''ssize_t'', False, if ''__LP64__'' \<in> macros s then 64 else 32),
       (''uint32_t'', True, 32),
       (''int32_t'', False, 32)]"
  using assms by (simp add: new_typedefs_def shim_simps)

text \<open>On an LP64 target and on a target without \<^verbatim>\<open>__LP64__\<close>, from an empty state.\<close>

theorem shim_widths_witness:
  "map (\<lambda>(n, T). (n, is_unsigned T, bits True T))
       (new_typedefs types_workaround_h (fresh_tu\<lparr>macros := {''__LP64__''}\<rparr>))
     = [(''size_t'', True, 64), (''ssize_t'', False, 64),
        (''uint32_t'', True, 32), (''int32_t'', False, 32)] \<and>
   map (\<lambda>(n, T). (n, is_unsigned T, bits False T))
       (new_typedefs types_workaround_h fresh_tu)
     = [(''size_t'', True, 32), (''ssize_t'', False, 32),
        (''uint32_t'', True, 32), (''int32_t'', False, 32)]"
  using shim_widths [of "fresh_tu\<lparr>macros := {''__LP64__''}\<rparr>"] shim_widths [of fresh_tu]
  by (simp add: fresh_tu_def)

subsection \<open>The shim behind complete standard headers\<close>

text \<open>
  \<^bold>\<open>C5.\<close> In every state in which \<^verbatim>\<open>_SIZE_T_DEFINED\<close> and \<^verbatim>\<open>_STDINT_H\<close> are both
  defined, as they are once a complete set of standard headers has been processed,
  the shim adds no typedef and reports no error: the declarations made before it are
  left as they were, all four typedefs of the shim being suppressed by the guards.
\<close>

theorem shim_suppressed:
  assumes "''_SIZE_T_DEFINED'' \<in> macros s" and "''_STDINT_H'' \<in> macros s"
  shows "typedefs (types_workaround_h s) = typedefs s \<and>
         tags (types_workaround_h s) = tags s \<and>
         diags (types_workaround_h s) = diags s \<and>
         new_typedefs types_workaround_h s = [] \<and>
         new_diags types_workaround_h s = []"
  using assms by (simp add: new_typedefs_def new_diags_def shim_simps)

theorem shim_suppressed_witness:
  "typedefs (types_workaround_h full_headers_tu) =
     [(''size_t'', UnsignedLong), (''uint32_t'', UnsignedInt),
      (''int32_t'', SignedInt), (''ssize_t'', SignedLong)] \<and>
   diags (types_workaround_h full_headers_tu) = []"
  using shim_suppressed [of full_headers_tu]
  by (simp add: full_headers_tu_def fresh_tu_def)

subsection \<open>Including the shim twice\<close>

text \<open>
  \<^bold>\<open>C9.\<close> Including \<^verbatim>\<open>types_workaround.h\<close> is idempotent: from every state,
  processing it twice in succession ends in the same state as processing it once.
  After the first pass \<^verbatim>\<open>TYPES_WORKAROUND_H\<close> is defined, so the second pass is
  skipped by the \<^verbatim>\<open>#ifndef\<close> of the first line.
\<close>

theorem shim_idempotent:
  "types_workaround_h (types_workaround_h s) = types_workaround_h s \<and>
   ''TYPES_WORKAROUND_H'' \<in> macros (types_workaround_h s)"
  by (simp add: shim_skipped shim_sets_own_guard)

theorem shim_idempotent_witness:
  "types_workaround_h (types_workaround_h fresh_tu) = types_workaround_h fresh_tu \<and>
   ''TYPES_WORKAROUND_H'' \<in> macros (types_workaround_h fresh_tu)"
  by (rule shim_idempotent)

subsection \<open>Which guard macros the shim sets\<close>

text \<open>
  \<^bold>\<open>C10\<close>, as amended. The guard bookkeeping of the shim is asymmetric. From every
  state with \<^verbatim>\<open>_STDINT_H\<close> undefined, \<^verbatim>\<open>_STDINT_H\<close> is still undefined after the
  shim, also when the shim has just defined \<^verbatim>\<open>uint32_t\<close> and \<^verbatim>\<open>int32_t\<close> (which it
  does when \<^verbatim>\<open>TYPES_WORKAROUND_H\<close> was undefined too). \<^verbatim>\<open>_SIZE_T_DEFINED\<close> is
  defined after the shim exactly when the shim was not skipped by its own include
  guard (\<^verbatim>\<open>TYPES_WORKAROUND_H\<close> undefined beforehand) or \<^verbatim>\<open>_SIZE_T_DEFINED\<close> was
  defined already.
\<close>

theorem shim_guard_bookkeeping:
  "(''_STDINT_H'' \<notin> macros s \<longrightarrow> ''_STDINT_H'' \<notin> macros (types_workaround_h s)) \<and>
   (''_SIZE_T_DEFINED'' \<in> macros (types_workaround_h s) \<longleftrightarrow>
      ''TYPES_WORKAROUND_H'' \<notin> macros s \<or> ''_SIZE_T_DEFINED'' \<in> macros s) \<and>
   (''TYPES_WORKAROUND_H'' \<notin> macros s \<and> ''_STDINT_H'' \<notin> macros s \<longrightarrow>
      (''uint32_t'', UnsignedInt) \<in> set (new_typedefs types_workaround_h s) \<and>
      (''int32_t'', SignedInt) \<in> set (new_typedefs types_workaround_h s))"
  by (simp add: new_typedefs_def shim_simps)

theorem shim_guard_bookkeeping_witness:
  "''_STDINT_H'' \<notin> macros (types_workaround_h fresh_tu) \<and>
   ''_SIZE_T_DEFINED'' \<in> macros (types_workaround_h fresh_tu) \<and>
   (''uint32_t'', UnsignedInt) \<in> set (new_typedefs types_workaround_h fresh_tu)"
  using shim_guard_bookkeeping [of fresh_tu] by (simp add: fresh_tu_def)

text \<open>
  The claim as first stated, for every state with \<^verbatim>\<open>_STDINT_H\<close> undefined, fails
  where \<^verbatim>\<open>TYPES_WORKAROUND_H\<close> is already defined: the whole file is skipped and
  \<^verbatim>\<open>_SIZE_T_DEFINED\<close> stays undefined.
\<close>

theorem skipped_shim_leaves_size_guard_undefined:
  "''_STDINT_H'' \<notin> macros (fresh_tu\<lparr>macros := {''TYPES_WORKAROUND_H''}\<rparr>) \<and>
   ''_SIZE_T_DEFINED'' \<notin>
      macros (types_workaround_h (fresh_tu\<lparr>macros := {''TYPES_WORKAROUND_H''}\<rparr>))"
  by (simp add: fresh_tu_def shim_skipped)

subsection \<open>Exactly one definition of each name\<close>

text \<open>
  \<^bold>\<open>C3\<close>, as amended. From every state in which the shim has not been processed yet
  (\<^verbatim>\<open>TYPES_WORKAROUND_H\<close> undefined) and in which the two guard macros agree with the
  declarations made so far (\<^verbatim>\<open>_SIZE_T_DEFINED\<close> defined: \<^verbatim>\<open>size_t\<close> and \<^verbatim>\<open>ssize_t\<close>
  each defined once, undefined: neither defined; the same for \<^verbatim>\<open>_STDINT_H\<close> with
  \<^verbatim>\<open>uint32_t\<close> and \<^verbatim>\<open>int32_t\<close>), each of the four names has exactly one definition
  after the shim: no second definition of a name already defined, no name left
  undefined.
\<close>

theorem shim_exactly_one_definition:
  assumes "''TYPES_WORKAROUND_H'' \<notin> macros s" and "guards_agree s"
  shows "\<forall>n \<in> set [''size_t'', ''ssize_t'', ''uint32_t'', ''int32_t''].
           def_count n (types_workaround_h s) = 1"
  using assms
  by (simp add: guards_agree_def shim_simps def_count_define_macro def_count_typedef_decl)

text \<open>
  A partial set of standard headers: \<^verbatim>\<open>stdint.h\<close> has been processed,
  \<^verbatim>\<open>stddef.h\<close> and \<^verbatim>\<open>sys/types.h\<close> have not.
\<close>

theorem shim_exactly_one_definition_witness:
  "def_count ''size_t'' (types_workaround_h
      (fresh_tu\<lparr>macros := {''_STDINT_H''},
                typedefs := [(''uint32_t'', UnsignedInt), (''int32_t'', SignedInt)]\<rparr>)) = 1 \<and>
   def_count ''ssize_t'' (types_workaround_h
      (fresh_tu\<lparr>macros := {''_STDINT_H''},
                typedefs := [(''uint32_t'', UnsignedInt), (''int32_t'', SignedInt)]\<rparr>)) = 1 \<and>
   def_count ''uint32_t'' (types_workaround_h
      (fresh_tu\<lparr>macros := {''_STDINT_H''},
                typedefs := [(''uint32_t'', UnsignedInt), (''int32_t'', SignedInt)]\<rparr>)) = 1 \<and>
   def_count ''int32_t'' (types_workaround_h
      (fresh_tu\<lparr>macros := {''_STDINT_H''},
                typedefs := [(''uint32_t'', UnsignedInt), (''int32_t'', SignedInt)]\<rparr>)) = 1"
  using shim_exactly_one_definition
    [of "fresh_tu\<lparr>macros := {''_STDINT_H''},
                  typedefs := [(''uint32_t'', UnsignedInt), (''int32_t'', SignedInt)]\<rparr>"]
  by (simp add: guards_agree_def def_count_def fresh_tu_def)

text \<open>
  The claim as first stated, for every initial state, fails where a header has defined
  \<^verbatim>\<open>size_t\<close> together with \<^verbatim>\<open>_SIZE_T_DEFINED\<close> but not \<^verbatim>\<open>ssize_t\<close> (a
  \<^verbatim>\<open>stddef.h\<close> without \<^verbatim>\<open>sys/types.h\<close>): the one guard covers both names, the
  block is skipped, and \<^verbatim>\<open>ssize_t\<close> is left undefined.
\<close>

theorem shared_guard_leaves_ssize_t_undefined:
  "\<not> type_defined ''ssize_t'' (types_workaround_h
       (fresh_tu\<lparr>macros := {''_SIZE_T_DEFINED''},
                 typedefs := [(''size_t'', UnsignedLongLong)]\<rparr>))"
  by (simp add: type_defined_def def_count_def fresh_tu_def shim_simps)

subsection \<open>Redefinition errors\<close>

text \<open>
  \<^bold>\<open>C7\<close>, as amended. The shim reports an error exactly when it is not skipped by its
  own include guard (\<^verbatim>\<open>TYPES_WORKAROUND_H\<close> undefined) and one of the four names is
  already defined with a type other than the one the shim gives it while the guard
  macro of that name (\<^verbatim>\<open>_SIZE_T_DEFINED\<close> for \<^verbatim>\<open>size_t\<close> and \<^verbatim>\<open>ssize_t\<close>,
  \<^verbatim>\<open>_STDINT_H\<close> for \<^verbatim>\<open>uint32_t\<close> and \<^verbatim>\<open>int32_t\<close>) is undefined. Every error it
  reports is a redefinition of one of the four names. Conversely, when no name is
  defined without its guard macro being defined, the shim reports no error.
\<close>

theorem shim_redefinition_errors:
  "(new_diags types_workaround_h s \<noteq> [] \<longleftrightarrow>
      ''TYPES_WORKAROUND_H'' \<notin> macros s \<and>
      ((''_SIZE_T_DEFINED'' \<notin> macros s \<and>
         (conflicting ''size_t''
            (if ''__LP64__'' \<in> macros s then UnsignedLong else UnsignedInt) s \<or>
          conflicting ''ssize_t''
            (if ''__LP64__'' \<in> macros s then SignedLong else SignedInt) s)) \<or>
       (''_STDINT_H'' \<notin> macros s \<and>
         (conflicting ''uint32_t'' UnsignedInt s \<or> conflicting ''int32_t'' SignedInt s)))) \<and>
   set (new_diags types_workaround_h s) \<subseteq>
      Redefinition ` {''size_t'', ''ssize_t'', ''uint32_t'', ''int32_t''} \<and>
   (guards_cover s \<longrightarrow> new_diags types_workaround_h s = [])"
  using shim_new_diags_nonempty_iff [of s] shim_new_diags_kind [of s]
    shim_quiet_when_covered [of s]
  by blast

text \<open>
  A 64-bit \<^verbatim>\<open>size_t\<close> defined by a header that does not set \<^verbatim>\<open>_SIZE_T_DEFINED\<close>:
  an error. An empty state: none.
\<close>

theorem shim_redefinition_errors_witness:
  "new_diags types_workaround_h
     (fresh_tu\<lparr>typedefs := [(''size_t'', UnsignedLongLong)]\<rparr>) \<noteq> [] \<and>
   new_diags types_workaround_h fresh_tu = []"
  using shim_redefinition_errors [of "fresh_tu\<lparr>typedefs := [(''size_t'', UnsignedLongLong)]\<rparr>"]
    shim_redefinition_errors [of fresh_tu]
  by (simp add: conflicting_def guards_cover_def type_defined_def def_count_def fresh_tu_def)

text \<open>
  The claim as first stated, for every state with a differently typed name and an
  undefined guard macro, fails where \<^verbatim>\<open>TYPES_WORKAROUND_H\<close> is already defined:
  \<^verbatim>\<open>size_t\<close> is defined with another type, \<^verbatim>\<open>_SIZE_T_DEFINED\<close> is undefined, and the
  shim, skipped as a whole, reports nothing.
\<close>

theorem skipped_shim_reports_no_conflict:
  "''_SIZE_T_DEFINED'' \<notin> macros (fresh_tu\<lparr>macros := {''TYPES_WORKAROUND_H''},
        typedefs := [(''size_t'', UnsignedLongLong)]\<rparr>) \<and>
   conflicting ''size_t'' UnsignedInt (fresh_tu\<lparr>macros := {''TYPES_WORKAROUND_H''},
        typedefs := [(''size_t'', UnsignedLongLong)]\<rparr>) \<and>
   new_diags types_workaround_h (fresh_tu\<lparr>macros := {''TYPES_WORKAROUND_H''},
        typedefs := [(''size_t'', UnsignedLongLong)]\<rparr>) = []"
  by (simp add: conflicting_def new_diags_def fresh_tu_def shim_skipped)

section \<open>The inclusion-order wrapper\<close>

text \<open>
  What processing \<^verbatim>\<open>wrapper.h\<close> comes to, written out: the five inclusions in the
  order of the file, stopping at the first file the host does not have.
\<close>

lemma wrapper_unfold:
  "wrapper_h H r =
     (case H ''stddef.h'' of
        None \<Rightarrow> Stopped
          \<lparr>tu = add_diag (FileNotFound ''stddef.h'') (tu r),
           included = included r @ [(Angle, ''stddef.h'')]\<rparr>
      | Some h1 \<Rightarrow>
     (case H ''stdbool.h'' of
        None \<Rightarrow> Stopped
          \<lparr>tu = add_diag (FileNotFound ''stdbool.h'') (h1 (tu r)),
           included = included r @ [(Angle, ''stddef.h''), (Angle, ''stdbool.h'')]\<rparr>
      | Some h2 \<Rightarrow>
     (case H ''stdint.h'' of
        None \<Rightarrow> Stopped
          \<lparr>tu = add_diag (FileNotFound ''stdint.h'') (h2 (h1 (tu r))),
           included = included r @
             [(Angle, ''stddef.h''), (Angle, ''stdbool.h''), (Angle, ''stdint.h'')]\<rparr>
      | Some h3 \<Rightarrow>
     (case H ''sys/types.h'' of
        None \<Rightarrow> Stopped
          \<lparr>tu = add_diag (FileNotFound ''sys/types.h'') (h3 (h2 (h1 (tu r)))),
           included = included r @
             [(Angle, ''stddef.h''), (Angle, ''stdbool.h''), (Angle, ''stdint.h''),
              (Angle, ''sys/types.h'')]\<rparr>
      | Some h4 \<Rightarrow>
     (case H ''BinderBindings.hpp'' of
        None \<Rightarrow> Stopped
          \<lparr>tu = add_diag (FileNotFound ''BinderBindings.hpp'') (h4 (h3 (h2 (h1 (tu r))))),
           included = included r @
             [(Angle, ''stddef.h''), (Angle, ''stdbool.h''), (Angle, ''stdint.h''),
              (Angle, ''sys/types.h''), (Quote, ''BinderBindings.hpp'')]\<rparr>
      | Some h5 \<Rightarrow> Finished
          \<lparr>tu = h5 (h4 (h3 (h2 (h1 (tu r))))),
           included = included r @
             [(Angle, ''stddef.h''), (Angle, ''stdbool.h''), (Angle, ''stdint.h''),
              (Angle, ''sys/types.h''), (Quote, ''BinderBindings.hpp'')]\<rparr>)))))"
  by (simp add: wrapper_h_def wrapper_h_basic_types_def include_file_def
      split: option.split)

lemma basic_types_all_found:
  assumes "H ''stddef.h'' = Some h1" and "H ''stdbool.h'' = Some h2"
    and "H ''stdint.h'' = Some h3" and "H ''sys/types.h'' = Some h4"
  shows "wrapper_h_basic_types H r = Finished
     \<lparr>tu = h4 (h3 (h2 (h1 (tu r)))),
      included = included r @
        [(Angle, ''stddef.h''), (Angle, ''stdbool.h''), (Angle, ''stdint.h''),
         (Angle, ''sys/types.h'')]\<rparr>"
  by (simp add: wrapper_h_basic_types_def include_file_found assms)

lemma wrapper_after_basic_types:
  "wrapper_h_basic_types H r = Finished r' \<Longrightarrow>
     wrapper_h H r = include_file H Quote ''BinderBindings.hpp'' r'"
  by (simp add: wrapper_h_def include_file_def split: option.split)

lemma wrapper_all_found:
  assumes "H ''stddef.h'' = Some h1" and "H ''stdbool.h'' = Some h2"
    and "H ''stdint.h'' = Some h3" and "H ''sys/types.h'' = Some h4"
    and "H ''BinderBindings.hpp'' = Some h5"
  shows "wrapper_h H r = Finished
     \<lparr>tu = h5 (h4 (h3 (h2 (h1 (tu r))))),
      included = included r @
        [(Angle, ''stddef.h''), (Angle, ''stdbool.h''), (Angle, ''stdint.h''),
         (Angle, ''sys/types.h''), (Quote, ''BinderBindings.hpp'')]\<rparr>"
  by (simp add: wrapper_unfold assms)

lemma wrapper_included_names:
  "snd ` set (included (run_of (wrapper_h H (start s)))) \<subseteq>
     {''stddef.h'', ''stdbool.h'', ''stdint.h'', ''sys/types.h'', ''BinderBindings.hpp''}"
  by (simp add: wrapper_unfold start_fields split: option.split)

lemma include_file_other_name:
  "n \<noteq> a \<Longrightarrow> include_file (H(a := x)) k n = include_file H k n"
  by (rule ext) (simp add: include_file_def)

lemma wrapper_ever_includes:
  "{n. \<exists>H' s'. n \<in> snd ` set (included (run_of (wrapper_h H' (start s'))))} =
     {''stddef.h'', ''stdbool.h'', ''stdint.h'', ''sys/types.h'', ''BinderBindings.hpp''}"
proof (rule equalityI; rule subsetI)
  fix n
  assume "n \<in> {n. \<exists>H' s'. n \<in> snd ` set (included (run_of (wrapper_h H' (start s'))))}"
  then obtain H' s' where "n \<in> snd ` set (included (run_of (wrapper_h H' (start s'))))"
    by (elim CollectE exE)
  then show "n \<in> {''stddef.h'', ''stdbool.h'', ''stdint.h'', ''sys/types.h'',
      ''BinderBindings.hpp''}"
    by (rule subsetD [OF wrapper_included_names])
next
  fix n
  assume n: "n \<in> {''stddef.h'', ''stdbool.h'', ''stdint.h'', ''sys/types.h'',
      ''BinderBindings.hpp''}"
  have "snd ` set (included (run_of (wrapper_h (\<lambda>n. Some (\<lambda>t. t)) (start fresh_tu)))) =
      {''stddef.h'', ''stdbool.h'', ''stdint.h'', ''sys/types.h'', ''BinderBindings.hpp''}"
    by (simp add: wrapper_all_found start_fields)
  with n
  have "n \<in> snd ` set (included (run_of (wrapper_h (\<lambda>n. Some (\<lambda>t. t)) (start fresh_tu))))"
    by (rule ssubst [where P = "\<lambda>S. n \<in> S", rotated])
  then show "n \<in> {n. \<exists>H' s'. n \<in> snd ` set (included (run_of (wrapper_h H' (start s'))))}"
    by (intro CollectI exI)
qed

lemma wrapper_never_includes_shim:
  "''types_workaround.h'' \<notin> snd ` set (included (run_of (wrapper_h H (start s))))"
proof
  assume "''types_workaround.h'' \<in> snd ` set (included (run_of (wrapper_h H (start s))))"
  then have "''types_workaround.h'' \<in>
      {''stddef.h'', ''stdbool.h'', ''stdint.h'', ''sys/types.h'', ''BinderBindings.hpp''}"
    by (rule subsetD [OF wrapper_included_names])
  then show False
    by simp
qed

lemma wrapper_ignores_shim_entry:
  "wrapper_h (H(''types_workaround.h'' := x)) r = wrapper_h H r"
  by (simp add: wrapper_h_def wrapper_h_basic_types_def include_file_other_name)

subsection \<open>Order of the inclusions\<close>

text \<open>
  \<^bold>\<open>C6.\<close> On every host and from every state, \<^verbatim>\<open>wrapper.h\<close> performs its
  inclusions in the order \<^verbatim>\<open>stddef.h\<close>, \<^verbatim>\<open>stdbool.h\<close>, \<^verbatim>\<open>stdint.h\<close>,
  \<^verbatim>\<open>sys/types.h\<close>, \<^verbatim>\<open>BinderBindings.hpp\<close>, and does nothing else: the outcome is
  that of these inclusions one after the other, processing stopping at the first file
  that is not found. The inclusions performed are therefore always an initial part of
  this list, and whenever the vendor header is reached, the four standard headers, and
  no other file, have been included before it.
\<close>

theorem wrapper_inclusion_order:
  "wrapper_h H (start s) =
     (case H ''stddef.h'' of
        None \<Rightarrow> Stopped
          \<lparr>tu = add_diag (FileNotFound ''stddef.h'') s,
           included = [(Angle, ''stddef.h'')]\<rparr>
      | Some h1 \<Rightarrow>
     (case H ''stdbool.h'' of
        None \<Rightarrow> Stopped
          \<lparr>tu = add_diag (FileNotFound ''stdbool.h'') (h1 s),
           included = [(Angle, ''stddef.h''), (Angle, ''stdbool.h'')]\<rparr>
      | Some h2 \<Rightarrow>
     (case H ''stdint.h'' of
        None \<Rightarrow> Stopped
          \<lparr>tu = add_diag (FileNotFound ''stdint.h'') (h2 (h1 s)),
           included =
             [(Angle, ''stddef.h''), (Angle, ''stdbool.h''), (Angle, ''stdint.h'')]\<rparr>
      | Some h3 \<Rightarrow>
     (case H ''sys/types.h'' of
        None \<Rightarrow> Stopped
          \<lparr>tu = add_diag (FileNotFound ''sys/types.h'') (h3 (h2 (h1 s))),
           included =
             [(Angle, ''stddef.h''), (Angle, ''stdbool.h''), (Angle, ''stdint.h''),
              (Angle, ''sys/types.h'')]\<rparr>
      | Some h4 \<Rightarrow>
     (case H ''BinderBindings.hpp'' of
        None \<Rightarrow> Stopped
          \<lparr>tu = add_diag (FileNotFound ''BinderBindings.hpp'') (h4 (h3 (h2 (h1 s)))),
           included =
             [(Angle, ''stddef.h''), (Angle, ''stdbool.h''), (Angle, ''stdint.h''),
              (Angle, ''sys/types.h''), (Quote, ''BinderBindings.hpp'')]\<rparr>
      | Some h5 \<Rightarrow> Finished
          \<lparr>tu = h5 (h4 (h3 (h2 (h1 s)))),
           included =
             [(Angle, ''stddef.h''), (Angle, ''stdbool.h''), (Angle, ''stdint.h''),
              (Angle, ''sys/types.h''), (Quote, ''BinderBindings.hpp'')]\<rparr>))))) \<and>
   (\<exists>k. included (run_of (wrapper_h H (start s))) =
      take k [(Angle, ''stddef.h''), (Angle, ''stdbool.h''), (Angle, ''stdint.h''),
              (Angle, ''sys/types.h''), (Quote, ''BinderBindings.hpp'')]) \<and>
   ((Quote, ''BinderBindings.hpp'') \<in> set (included (run_of (wrapper_h H (start s)))) \<longrightarrow>
      takeWhile (\<lambda>f. f \<noteq> (Quote, ''BinderBindings.hpp''))
          (included (run_of (wrapper_h H (start s)))) =
        [(Angle, ''stddef.h''), (Angle, ''stdbool.h''), (Angle, ''stdint.h''),
         (Angle, ''sys/types.h'')])"
proof (intro conjI)
  show "\<exists>k. included (run_of (wrapper_h H (start s))) =
      take k [(Angle, ''stddef.h''), (Angle, ''stdbool.h''), (Angle, ''stdint.h''),
              (Angle, ''sys/types.h''), (Quote, ''BinderBindings.hpp'')]"
  proof (cases "H ''stddef.h''")
    case None
    then show ?thesis
      by (intro exI [of _ 1]) (simp add: wrapper_unfold start_fields)
  next
    case h1: (Some h1)
    show ?thesis
    proof (cases "H ''stdbool.h''")
      case None
      with h1 show ?thesis
        by (intro exI [of _ 2]) (simp add: wrapper_unfold start_fields numeral_2_eq_2)
    next
      case h2: (Some h2)
      show ?thesis
      proof (cases "H ''stdint.h''")
        case None
        with h1 h2 show ?thesis
          by (intro exI [of _ 3]) (simp add: wrapper_unfold start_fields numeral_3_eq_3)
      next
        case h3: (Some h3)
        show ?thesis
        proof (cases "H ''sys/types.h''")
          case None
          with h1 h2 h3 show ?thesis
            by (intro exI [of _ 4]) (simp add: wrapper_unfold start_fields)
        next
          case (Some h4)
          with h1 h2 h3 show ?thesis
            by (intro exI [of _ 5])
              (simp add: wrapper_unfold start_fields split: option.split)
        qed
      qed
    qed
  qed
qed (simp_all add: wrapper_unfold start_fields split: option.split)

text \<open>
  A host with all five headers, and a host without the standard headers: there the
  wrapper stops at its first inclusion.
\<close>

theorem wrapper_inclusion_order_witness:
  "included (run_of (wrapper_h complete_host (start fresh_tu))) =
     [(Angle, ''stddef.h''), (Angle, ''stdbool.h''), (Angle, ''stdint.h''),
      (Angle, ''sys/types.h''), (Quote, ''BinderBindings.hpp'')] \<and>
   wrapper_h no_std_headers_host (start fresh_tu) =
     Stopped \<lparr>tu = add_diag (FileNotFound ''stddef.h'') fresh_tu,
              included = [(Angle, ''stddef.h'')]\<rparr>"
  using wrapper_inclusion_order [of complete_host fresh_tu]
    wrapper_inclusion_order [of no_std_headers_host fresh_tu]
  by (simp add: complete_host_def no_std_headers_host_def shim_only_host_def)

subsection \<open>The files the wrapper includes\<close>

text \<open>
  \<^bold>\<open>C8.\<close> The files \<^verbatim>\<open>wrapper.h\<close> ever includes itself are exactly
  \<^verbatim>\<open>stddef.h\<close>, \<^verbatim>\<open>stdbool.h\<close>, \<^verbatim>\<open>stdint.h\<close>, \<^verbatim>\<open>sys/types.h\<close> and
  \<^verbatim>\<open>BinderBindings.hpp\<close>: on every host and from every state it includes only files
  among these five, over all hosts and states it includes each of them, and it
  includes all five wherever the four standard headers are found.
  \<^verbatim>\<open>types_workaround.h\<close> is never among them, and what the host holds under that
  name has no influence on the outcome. The wrapper defines no macro and no type of its
  own: where the included headers leave the macros (the typedefs) as they are, so does
  the wrapper.
\<close>

theorem wrapper_direct_includes:
  "snd ` set (included (run_of (wrapper_h H (start s)))) \<subseteq>
     {''stddef.h'', ''stdbool.h'', ''stdint.h'', ''sys/types.h'', ''BinderBindings.hpp''} \<and>
   {n. \<exists>H' s'. n \<in> snd ` set (included (run_of (wrapper_h H' (start s'))))} =
     {''stddef.h'', ''stdbool.h'', ''stdint.h'', ''sys/types.h'', ''BinderBindings.hpp''} \<and>
   ''types_workaround.h'' \<notin> snd ` set (included (run_of (wrapper_h H (start s)))) \<and>
   wrapper_h (H(''types_workaround.h'' := x)) r = wrapper_h H r \<and>
   (H ''stddef.h'' \<noteq> None \<and> H ''stdbool.h'' \<noteq> None \<and> H ''stdint.h'' \<noteq> None \<and>
    H ''sys/types.h'' \<noteq> None \<longrightarrow>
      snd ` set (included (run_of (wrapper_h H (start s)))) =
        {''stddef.h'', ''stdbool.h'', ''stdint.h'', ''sys/types.h'',
         ''BinderBindings.hpp''}) \<and>
   ((\<forall>n \<in> {''stddef.h'', ''stdbool.h'', ''stdint.h'', ''sys/types.h'',
             ''BinderBindings.hpp''}.
       \<forall>h. H n = Some h \<longrightarrow> (\<forall>t. macros (h t) = macros t)) \<longrightarrow>
      macros (tu (run_of (wrapper_h H (start s)))) = macros s) \<and>
   ((\<forall>n \<in> {''stddef.h'', ''stdbool.h'', ''stdint.h'', ''sys/types.h'',
             ''BinderBindings.hpp''}.
       \<forall>h. H n = Some h \<longrightarrow> (\<forall>t. typedefs (h t) = typedefs t)) \<longrightarrow>
      typedefs (tu (run_of (wrapper_h H (start s)))) = typedefs s)"
proof (intro conjI)
  let ?five = "{''stddef.h'', ''stdbool.h'', ''stdint.h'', ''sys/types.h'',
    ''BinderBindings.hpp''}"
  show "snd ` set (included (run_of (wrapper_h H (start s)))) \<subseteq> ?five"
    by (rule wrapper_included_names)
  show "{n. \<exists>H' s'. n \<in> snd ` set (included (run_of (wrapper_h H' (start s'))))} = ?five"
    by (rule wrapper_ever_includes)
  show "''types_workaround.h'' \<notin> snd ` set (included (run_of (wrapper_h H (start s))))"
    by (rule wrapper_never_includes_shim)
  show "wrapper_h (H(''types_workaround.h'' := x)) r = wrapper_h H r"
    by (rule wrapper_ignores_shim_entry)
  show "H ''stddef.h'' \<noteq> None \<and> H ''stdbool.h'' \<noteq> None \<and> H ''stdint.h'' \<noteq> None \<and>
      H ''sys/types.h'' \<noteq> None \<longrightarrow>
      snd ` set (included (run_of (wrapper_h H (start s)))) = ?five"
    by (auto simp: wrapper_unfold start_fields split: option.split)
  show "(\<forall>n \<in> ?five. \<forall>h. H n = Some h \<longrightarrow> (\<forall>t. macros (h t) = macros t)) \<longrightarrow>
      macros (tu (run_of (wrapper_h H (start s)))) = macros s"
    by (simp add: wrapper_unfold start_fields add_diag_fields split: option.split)
  show "(\<forall>n \<in> ?five. \<forall>h. H n = Some h \<longrightarrow> (\<forall>t. typedefs (h t) = typedefs t)) \<longrightarrow>
      typedefs (tu (run_of (wrapper_h H (start s)))) = typedefs s"
    by (simp add: wrapper_unfold start_fields add_diag_fields split: option.split)
qed

text \<open>
  On the host of stub headers, which holds the shim under its own name, the wrapper
  includes the five files and leaves macros and typedefs empty.
\<close>

theorem wrapper_direct_includes_witness:
  "snd ` set (included (run_of (wrapper_h stub_host (start fresh_tu)))) =
     {''stddef.h'', ''stdbool.h'', ''stdint.h'', ''sys/types.h'', ''BinderBindings.hpp''} \<and>
   ''types_workaround.h'' \<notin>
     snd ` set (included (run_of (wrapper_h stub_host (start fresh_tu)))) \<and>
   wrapper_h (stub_host(''types_workaround.h'' := None)) (start fresh_tu) =
     wrapper_h stub_host (start fresh_tu) \<and>
   macros (tu (run_of (wrapper_h stub_host (start fresh_tu)))) = {} \<and>
   typedefs (tu (run_of (wrapper_h stub_host (start fresh_tu)))) = []"
  using wrapper_direct_includes [of stub_host fresh_tu None "start fresh_tu"]
  by (simp add: stub_host_def seq_simps struct_def_fields fresh_tu_def)

subsection \<open>Including the wrapper twice\<close>

text \<open>
  \<^bold>\<open>C2\<close>, as amended. \<^verbatim>\<open>wrapper.h\<close> has no include guard of its own: included a
  second time, it performs its five inclusions again. The second inclusion leaves the
  translation unit as the first left it, adding no definition and no error, whenever
  each of the five headers is found on the host, is protected by an include guard of
  its own and never undefines a macro. Both inclusions then run to their end.
\<close>

theorem wrapper_twice_guarded_headers:
  assumes "\<forall>n \<in> {''stddef.h'', ''stdbool.h'', ''stdint.h'', ''sys/types.h'',
                  ''BinderBindings.hpp''}.
             \<exists>h. H n = Some h \<and> self_guarded h \<and> keeps_macros h"
  shows "wrapper_h H r = Finished (run_of (wrapper_h H r)) \<and>
         steps [wrapper_h H, wrapper_h H] r =
           Finished (run_of (steps [wrapper_h H, wrapper_h H] r)) \<and>
         tu (run_of (steps [wrapper_h H, wrapper_h H] r)) = tu (run_of (wrapper_h H r)) \<and>
         included (run_of (steps [wrapper_h H, wrapper_h H] r)) = included r @
           [(Angle, ''stddef.h''), (Angle, ''stdbool.h''), (Angle, ''stdint.h''),
            (Angle, ''sys/types.h''), (Quote, ''BinderBindings.hpp''),
            (Angle, ''stddef.h''), (Angle, ''stdbool.h''), (Angle, ''stdint.h''),
            (Angle, ''sys/types.h''), (Quote, ''BinderBindings.hpp'')]"
proof -
  from assms obtain h1 where h1: "H ''stddef.h'' = Some h1" "self_guarded h1"
    by auto
  from assms obtain h2
    where h2: "H ''stdbool.h'' = Some h2" "self_guarded h2" "keeps_macros h2"
    by auto
  from assms obtain h3
    where h3: "H ''stdint.h'' = Some h3" "self_guarded h3" "keeps_macros h3"
    by auto
  from assms obtain h4
    where h4: "H ''sys/types.h'' = Some h4" "self_guarded h4" "keeps_macros h4"
    by auto
  from assms obtain h5
    where h5: "H ''BinderBindings.hpp'' = Some h5" "self_guarded h5" "keeps_macros h5"
    by auto
  from h1(2) obtain g1
    where g1: "\<And>s. g1 \<in> macros s \<Longrightarrow> h1 s = s" "\<And>s. g1 \<in> macros (h1 s)"
    unfolding self_guarded_def by blast
  from h2(2) obtain g2
    where g2: "\<And>s. g2 \<in> macros s \<Longrightarrow> h2 s = s" "\<And>s. g2 \<in> macros (h2 s)"
    unfolding self_guarded_def by blast
  from h3(2) obtain g3
    where g3: "\<And>s. g3 \<in> macros s \<Longrightarrow> h3 s = s" "\<And>s. g3 \<in> macros (h3 s)"
    unfolding self_guarded_def by blast
  from h4(2) obtain g4
    where g4: "\<And>s. g4 \<in> macros s \<Longrightarrow> h4 s = s" "\<And>s. g4 \<in> macros (h4 s)"
    unfolding self_guarded_def by blast
  from h5(2) obtain g5
    where g5: "\<And>s. g5 \<in> macros s \<Longrightarrow> h5 s = s" "\<And>s. g5 \<in> macros (h5 s)"
    unfolding self_guarded_def by blast
  have kept:
    "\<And>m s. m \<in> macros s \<Longrightarrow> m \<in> macros (h2 s)"
    "\<And>m s. m \<in> macros s \<Longrightarrow> m \<in> macros (h3 s)"
    "\<And>m s. m \<in> macros s \<Longrightarrow> m \<in> macros (h4 s)"
    "\<And>m s. m \<in> macros s \<Longrightarrow> m \<in> macros (h5 s)"
    using h2(3) h3(3) h4(3) h5(3) unfolding keeps_macros_def by blast+
  note found = h1(1) h2(1) h3(1) h4(1) h5(1)
  define t where "t = h5 (h4 (h3 (h2 (h1 (tu r)))))"
  define r1 where "r1 = \<lparr>tu = t, included = included r @
     [(Angle, ''stddef.h''), (Angle, ''stdbool.h''), (Angle, ''stdint.h''),
      (Angle, ''sys/types.h''), (Quote, ''BinderBindings.hpp'')]\<rparr>"
  have first: "wrapper_h H r = Finished r1"
    unfolding r1_def t_def by (rule wrapper_all_found [OF found])
  have "g1 \<in> macros t" "g2 \<in> macros t" "g3 \<in> macros t" "g4 \<in> macros t" "g5 \<in> macros t"
    unfolding t_def by (simp_all add: g1 g2 g3 g4 g5 kept)
  then have again: "h5 (h4 (h3 (h2 (h1 t)))) = t"
    by (simp add: g1 g2 g3 g4 g5)
  have "wrapper_h H r1 = Finished \<lparr>tu = t, included = included r1 @
     [(Angle, ''stddef.h''), (Angle, ''stdbool.h''), (Angle, ''stdint.h''),
      (Angle, ''sys/types.h''), (Quote, ''BinderBindings.hpp'')]\<rparr>"
    using wrapper_all_found [OF found, of r1] by (simp add: r1_def again)
  then have second: "steps [wrapper_h H, wrapper_h H] r = Finished \<lparr>tu = t,
     included = included r1 @
       [(Angle, ''stddef.h''), (Angle, ''stdbool.h''), (Angle, ''stdint.h''),
        (Angle, ''sys/types.h''), (Quote, ''BinderBindings.hpp'')]\<rparr>"
    by (simp add: first)
  show ?thesis
    unfolding first second by (simp add: r1_def)
qed

theorem wrapper_twice_guarded_headers_witness:
  "wrapper_h complete_host (start fresh_tu) =
     Finished (run_of (wrapper_h complete_host (start fresh_tu))) \<and>
   steps [wrapper_h complete_host, wrapper_h complete_host] (start fresh_tu) =
     Finished (run_of
       (steps [wrapper_h complete_host, wrapper_h complete_host] (start fresh_tu))) \<and>
   tu (run_of (steps [wrapper_h complete_host, wrapper_h complete_host] (start fresh_tu))) =
     tu (run_of (wrapper_h complete_host (start fresh_tu))) \<and>
   included (run_of
       (steps [wrapper_h complete_host, wrapper_h complete_host] (start fresh_tu))) =
     included (start fresh_tu) @
       [(Angle, ''stddef.h''), (Angle, ''stdbool.h''), (Angle, ''stdint.h''),
        (Angle, ''sys/types.h''), (Quote, ''BinderBindings.hpp''),
        (Angle, ''stddef.h''), (Angle, ''stdbool.h''), (Angle, ''stdint.h''),
        (Angle, ''sys/types.h''), (Quote, ''BinderBindings.hpp'')]"
  using wrapper_twice_guarded_headers [OF complete_host_guarded] .

text \<open>
  The claim as first stated, no duplicate-definition error from a second inclusion in
  any case, fails on a host whose vendor header has no include guard: nothing in
  \<^verbatim>\<open>wrapper.h\<close> keeps the header from being processed again, and the struct it
  defines is defined twice.
\<close>

theorem second_inclusion_redefines_unguarded_vendor:
  "diags (tu (run_of (wrapper_h unguarded_vendor_host (start fresh_tu)))) = [] \<and>
   diags (tu (run_of (steps [wrapper_h unguarded_vendor_host,
                             wrapper_h unguarded_vendor_host] (start fresh_tu)))) =
     [Redefinition ''BinderHandle'']"
  by (simp add: wrapper_unfold start_fields unguarded_vendor_host_def
      complete_host_def fresh_tu_def guarded_def ifndef_def seq_simps define_macro_def
      typedef_decl_def struct_def_def conflicting_def add_diag_def)

subsection \<open>A host without the standard headers\<close>

lemma shim_defines_all_four:
  assumes "''TYPES_WORKAROUND_H'' \<notin> macros s"
    and "''_SIZE_T_DEFINED'' \<notin> macros s"
    and "''_STDINT_H'' \<notin> macros s"
  shows "type_defined ''size_t'' (types_workaround_h s)"
    and "type_defined ''ssize_t'' (types_workaround_h s)"
    and "type_defined ''uint32_t'' (types_workaround_h s)"
    and "type_defined ''int32_t'' (types_workaround_h s)"
  using assms
  by (simp_all add: type_defined_def shim_simps def_count_define_macro def_count_typedef_decl)

lemma keeps_typedefs_defined:
  "keeps_typedefs h \<Longrightarrow> type_defined name s \<Longrightarrow> type_defined name (h s)"
  unfolding keeps_typedefs_def type_defined_def
  by (meson less_le_trans)

text \<open>
  \<^bold>\<open>C1\<close>, as amended. \<^verbatim>\<open>wrapper.h\<close> does not include the shim, and a header that
  is not found stops it. On a host without \<^verbatim>\<open>stddef.h\<close>, as is every host without
  the standard headers, processing \<^verbatim>\<open>wrapper.h\<close> stops at its first line with the
  one error that the file is not found, also when the shim has been processed before:
  the vendor header is not processed. The shim supplies the type names where the four
  standard headers are found but do not define them. When
  \<^verbatim>\<open>types_workaround.h\<close> has been processed ahead of \<^verbatim>\<open>wrapper.h\<close>, from a state
  in which none of the shim's three guard macros is defined, and each of the four
  standard headers is found and takes no typedef away, then the four inclusions run to
  their end and each of \<^verbatim>\<open>size_t\<close>, \<^verbatim>\<open>ssize_t\<close>, \<^verbatim>\<open>uint32_t\<close>, \<^verbatim>\<open>int32_t\<close>
  is defined in the state in which the vendor header is included.
\<close>

theorem shim_then_wrapper_resolves_types:
  assumes "''TYPES_WORKAROUND_H'' \<notin> macros s"
    and "''_SIZE_T_DEFINED'' \<notin> macros s"
    and "''_STDINT_H'' \<notin> macros s"
  shows "(H ''stddef.h'' = None \<longrightarrow>
            wrapper_h H (start (types_workaround_h s)) =
              Stopped \<lparr>tu = add_diag (FileNotFound ''stddef.h'') (types_workaround_h s),
                       included = [(Angle, ''stddef.h'')]\<rparr>) \<and>
         ((\<forall>n \<in> {''stddef.h'', ''stdbool.h'', ''stdint.h'', ''sys/types.h''}.
             \<exists>h. H n = Some h \<and> keeps_typedefs h) \<longrightarrow>
            wrapper_h_basic_types H (start (types_workaround_h s)) =
              Finished (run_of (wrapper_h_basic_types H (start (types_workaround_h s)))) \<and>
            (\<forall>n \<in> set [''size_t'', ''ssize_t'', ''uint32_t'', ''int32_t''].
               type_defined n
                 (tu (run_of (wrapper_h_basic_types H (start (types_workaround_h s)))))) \<and>
            wrapper_h H (start (types_workaround_h s)) =
              include_file H Quote ''BinderBindings.hpp''
                (run_of (wrapper_h_basic_types H (start (types_workaround_h s)))))"
proof (intro conjI impI)
  assume "H ''stddef.h'' = None"
  then show "wrapper_h H (start (types_workaround_h s)) =
      Stopped \<lparr>tu = add_diag (FileNotFound ''stddef.h'') (types_workaround_h s),
               included = [(Angle, ''stddef.h'')]\<rparr>"
    by (simp add: wrapper_unfold start_fields)
next
  assume found: "\<forall>n \<in> {''stddef.h'', ''stdbool.h'', ''stdint.h'', ''sys/types.h''}.
      \<exists>h. H n = Some h \<and> keeps_typedefs h"
  from found obtain h1 where h1: "H ''stddef.h'' = Some h1" "keeps_typedefs h1"
    by auto
  from found obtain h2 where h2: "H ''stdbool.h'' = Some h2" "keeps_typedefs h2"
    by auto
  from found obtain h3 where h3: "H ''stdint.h'' = Some h3" "keeps_typedefs h3"
    by auto
  from found obtain h4 where h4: "H ''sys/types.h'' = Some h4" "keeps_typedefs h4"
    by auto
  let ?r = "\<lparr>tu = h4 (h3 (h2 (h1 (types_workaround_h s)))),
      included = [(Angle, ''stddef.h''), (Angle, ''stdbool.h''), (Angle, ''stdint.h''),
        (Angle, ''sys/types.h'')]\<rparr>"
  have basic: "wrapper_h_basic_types H (start (types_workaround_h s)) = Finished ?r"
    using basic_types_all_found [OF h1(1) h2(1) h3(1) h4(1), of "start (types_workaround_h s)"]
    by (simp add: start_fields)
  have through: "type_defined n (tu ?r)" if "type_defined n (types_workaround_h s)" for n
    using that h1(2) h2(2) h3(2) h4(2) by (simp add: keeps_typedefs_defined)
  show "wrapper_h_basic_types H (start (types_workaround_h s)) =
      Finished (run_of (wrapper_h_basic_types H (start (types_workaround_h s))))"
    by (simp add: basic)
  show "\<forall>n \<in> set [''size_t'', ''ssize_t'', ''uint32_t'', ''int32_t''].
      type_defined n (tu (run_of (wrapper_h_basic_types H (start (types_workaround_h s)))))"
    unfolding basic run_of.simps
    using shim_defines_all_four [OF assms] by (simp add: through del: run.simps)
  show "wrapper_h H (start (types_workaround_h s)) =
      include_file H Quote ''BinderBindings.hpp''
        (run_of (wrapper_h_basic_types H (start (types_workaround_h s))))"
    unfolding basic run_of.simps by (rule wrapper_after_basic_types [OF basic])
qed

text \<open>
  The host of stub headers, where the shim fills the gap, and the host without the
  standard headers, where the wrapper stops at once.
\<close>

theorem shim_then_wrapper_resolves_types_witness:
  "wrapper_h no_std_headers_host (start (types_workaround_h fresh_tu)) =
     Stopped \<lparr>tu = add_diag (FileNotFound ''stddef.h'') (types_workaround_h fresh_tu),
              included = [(Angle, ''stddef.h'')]\<rparr> \<and>
   type_defined ''size_t''
     (tu (run_of (wrapper_h_basic_types stub_host (start (types_workaround_h fresh_tu))))) \<and>
   type_defined ''ssize_t''
     (tu (run_of (wrapper_h_basic_types stub_host (start (types_workaround_h fresh_tu))))) \<and>
   type_defined ''uint32_t''
     (tu (run_of (wrapper_h_basic_types stub_host (start (types_workaround_h fresh_tu))))) \<and>
   type_defined ''int32_t''
     (tu (run_of (wrapper_h_basic_types stub_host (start (types_workaround_h fresh_tu)))))"
  using shim_then_wrapper_resolves_types [of fresh_tu no_std_headers_host]
    shim_then_wrapper_resolves_types [of fresh_tu stub_host]
  by (simp add: no_std_headers_host_def shim_only_host_def stub_host_def
      keeps_typedefs_seq_Nil fresh_tu_def)

text \<open>
  The claim as first stated, for \<^verbatim>\<open>wrapper.h\<close> processed on a host without the
  standard headers, fails from an empty state: the shim is on the host but is never
  included, processing stops at the inclusion of \<^verbatim>\<open>stddef.h\<close>, \<^verbatim>\<open>size_t\<close> is
  undefined there, and the vendor header is not reached.
\<close>

theorem wrapper_alone_leaves_size_t_undefined:
  "wrapper_h no_std_headers_host (start fresh_tu) =
     Stopped \<lparr>tu = add_diag (FileNotFound ''stddef.h'') fresh_tu,
              included = [(Angle, ''stddef.h'')]\<rparr> \<and>
   \<not> type_defined ''size_t'' (tu (run_of (wrapper_h no_std_headers_host (start fresh_tu))))"
  by (simp add: wrapper_unfold start_fields no_std_headers_host_def shim_only_host_def
      type_defined_def def_count_def add_diag_fields fresh_tu_def)

end
